theory Spec2Isabelle
  imports Complex_Main
begin

section \<open>Cells: the floating-point values of a pandas column\<close>

text \<open>
  A cell of a numeric column is a finite number, one of the two infinities, or
  NaN, which pandas uses as the missing-value marker. A real number stands
  for the double: rounding is not modelled, overflow of a difference or of a
  quotient to an infinity is, and the sum inside a mean is taken exact. The
  special values follow IEEE 754. Zero is unsigned. Equality of cells is
  equality of markers: \<open>NaN = NaN\<close> says that both cells are missing.
\<close>

datatype cell = Fin real | PInf | NInf | NaN

fun isinf :: "cell \<Rightarrow> bool" where
  "isinf PInf = True"
| "isinf NInf = True"
| "isinf _ = False"

fun notna :: "cell \<Rightarrow> bool" where
  "notna NaN = False"
| "notna _ = True"

text \<open>
  The result of a subtraction or a division whose exact value is \<open>r\<close>. A
  double holds magnitudes below \<open>2^1024 - 2^970\<close>; from that bound on,
  rounding to nearest gives an infinity. Rounding below the bound is not
  modelled.
\<close>

definition overflow_threshold :: real where
  "overflow_threshold = 2 ^ 1024 - 2 ^ 970"

definition overflow :: "real \<Rightarrow> cell" where
  "overflow r =
     (if overflow_threshold \<le> r then PInf
      else if r \<le> - overflow_threshold then NInf
      else Fin r)"

fun c_sub :: "cell \<Rightarrow> cell \<Rightarrow> cell" where
  "c_sub NaN _ = NaN"
| "c_sub _ NaN = NaN"
| "c_sub (Fin a) (Fin b) = overflow (a - b)"
| "c_sub PInf PInf = NaN"
| "c_sub NInf NInf = NaN"
| "c_sub PInf _ = PInf"
| "c_sub NInf _ = NInf"
| "c_sub (Fin a) PInf = NInf"
| "c_sub (Fin a) NInf = PInf"

text \<open>The sign of a cell that is not NaN: \<open>-1\<close>, \<open>0\<close> or \<open>1\<close>.\<close>

fun c_sgn :: "cell \<Rightarrow> real" where
  "c_sgn (Fin a) = sgn a"
| "c_sgn PInf = 1"
| "c_sgn NInf = - 1"
| "c_sgn NaN = 0"

fun c_div :: "cell \<Rightarrow> cell \<Rightarrow> cell" where
  "c_div NaN _ = NaN"
| "c_div _ NaN = NaN"
| "c_div (Fin a) (Fin b) =
     (if b \<noteq> 0 then overflow (a / b)
      else if a = 0 then NaN
      else if 0 < a then PInf else NInf)"
| "c_div (Fin a) _ = Fin 0"
| "c_div x (Fin b) =
     (if c_sgn x * (if b < 0 then - 1 else 1) > 0 then PInf else NInf)"
| "c_div _ _ = NaN"

text \<open>Comparison with a finite constant; every comparison with NaN is false.\<close>

fun c_gt :: "cell \<Rightarrow> real \<Rightarrow> bool" where
  "c_gt (Fin a) r = (r < a)"
| "c_gt PInf r = True"
| "c_gt _ r = False"

fun c_le :: "cell \<Rightarrow> real \<Rightarrow> bool" where
  "c_le (Fin a) r = (a \<le> r)"
| "c_le NInf r = True"
| "c_le _ r = False"


section \<open>Column operations of pandas\<close>

text \<open>
  \<open>Series.diff()\<close>: the first cell is missing, every later cell is the
  difference to its predecessor.
\<close>

fun diff :: "cell list \<Rightarrow> cell list" where
  "diff [] = []"
| "diff (x # xs) = NaN # map2 (\<lambda>prev cur. c_sub cur prev) (x # xs) xs"

text \<open>Division of two columns over the same index, cell by cell.\<close>

definition div_col :: "cell list \<Rightarrow> cell list \<Rightarrow> cell list" where
  "div_col xs ys = map2 c_div xs ys"

text \<open>
  \<open>Series.mean()\<close> skips missing cells; with none left the mean is missing.
  The sum of the remaining cells is taken exact: an infinite cell makes it
  infinite, two infinite cells of opposite sign make it NaN.
\<close>

fun fin_vals :: "cell list \<Rightarrow> real list" where
  "fin_vals [] = []"
| "fin_vals (Fin a # xs) = a # fin_vals xs"
| "fin_vals (_ # xs) = fin_vals xs"

definition series_sum :: "cell list \<Rightarrow> cell" where
  "series_sum vals =
     (if PInf \<in> set vals \<and> NInf \<in> set vals then NaN
      else if PInf \<in> set vals then PInf
      else if NInf \<in> set vals then NInf
      else Fin (sum_list (fin_vals vals)))"

definition series_mean :: "cell list \<Rightarrow> cell" where
  "series_mean xs =
     (let vals = filter notna xs
      in if vals = [] then NaN
         else c_div (series_sum vals) (Fin (real (length vals))))"

subsection \<open>Rolling windows\<close>

datatype error = ValueError

definition clip :: "int \<Rightarrow> int \<Rightarrow> int \<Rightarrow> int" where
  "clip x lo hi = min hi (max lo x)"

text \<open>
  The fixed-window indexer of pandas (\<open>FixedWindowIndexer.get_window_bounds\<close>):
  the window of index \<open>i\<close> is the half-open range \<open>[start, stop)\<close>, clipped
  to the column; a centered window is shifted by \<open>(window_size - 1) // 2\<close>.
\<close>

definition window_bounds :: "nat \<Rightarrow> int \<Rightarrow> bool \<Rightarrow> nat \<Rightarrow> nat \<times> nat" where
  "window_bounds num_values window_size center i =
     (let offset = (if center then (window_size - 1) div 2 else 0);
          stop = int i + 1 + offset;
          start = stop - window_size
      in (nat (clip start 0 (int num_values)), nat (clip stop 0 (int num_values))))"

text \<open>
  Before a rolling aggregation pandas turns infinite cells into NaN
  (\<open>BaseWindow._prep_values\<close>); the aggregation then skips every NaN of a
  window and returns NaN when fewer than \<open>min_periods\<close> cells are left.
\<close>

definition prep_values :: "cell list \<Rightarrow> cell list" where
  "prep_values values = map (\<lambda>x. if isinf x then NaN else x) values"

definition calc_mean :: "nat \<Rightarrow> cell list \<Rightarrow> cell" where
  "calc_mean minp win =
     (let vals = fin_vals win; nobs = length vals
      in if minp \<le> nobs \<and> 0 < nobs then Fin (sum_list vals / real nobs) else NaN)"

definition roll_mean :: "cell list \<Rightarrow> int \<Rightarrow> bool \<Rightarrow> nat \<Rightarrow> cell list" where
  "roll_mean values window center minp =
     map (\<lambda>i. case window_bounds (length values) window center i of
                 (start, stop) \<Rightarrow> calc_mean minp (take (stop - start) (drop start values)))
         [0..<length values]"

text \<open>
  \<open>signal.rolling(window, center, min_periods).mean()\<close>. A negative window, a
  negative \<open>min_periods\<close> and a \<open>min_periods\<close> above the window raise
  ValueError; without \<open>min_periods\<close> a full window is required.
\<close>

definition rolling_mean :: "cell list \<Rightarrow> int \<Rightarrow> bool \<Rightarrow> int option \<Rightarrow> error + cell list" where
  "rolling_mean signal window center min_periods =
     (if window < 0 then Inl ValueError
      else case min_periods of
             None \<Rightarrow> Inr (roll_mean (prep_values signal) window center (nat window))
           | Some mp \<Rightarrow>
               if mp < 0 \<or> window < mp then Inl ValueError
               else Inr (roll_mean (prep_values signal) window center (nat mp)))"

text \<open>\<open>fillna(method="bfill")\<close>: a missing cell takes the next valid value, if any.\<close>

fun bfill :: "cell list \<Rightarrow> cell list" where
  "bfill [] = []"
| "bfill (x # xs) =
     (let r = bfill xs
      in (if x = NaN then (case r of [] \<Rightarrow> NaN | y # _ \<Rightarrow> y) else x) # r)"

section \<open>analyzer.py\<close>

definition moving_average :: "cell list \<Rightarrow> int \<Rightarrow> error + cell list" where
  "moving_average signal window = rolling_mean signal window True (Some 1)"

text \<open>
  The processed table: the columns \<open>t\<close> and \<open>dt\<close> are the fields \<open>col_t\<close> and
  \<open>col_dt\<close>, the other fields carry the names of their columns.
\<close>

record series =
  col_t :: "cell list"
  distance :: "cell list"
  col_dt :: "cell list"
  velocity_raw :: "cell list"
  acceleration_raw :: "cell list"
  distance_f :: "cell list"
  velocity_f :: "cell list"
  acceleration_f :: "cell list"

text \<open>\<open>round(x, 1)\<close>: to one decimal, a tie goes to the even neighbour.\<close>

definition round_half_even :: "real \<Rightarrow> int" where
  "round_half_even x =
     (let f = \<lfloor>x\<rfloor>; d = x - of_int f
      in if d < 1 / 2 then f else if 1 / 2 < d then f + 1 else if even f then f else f + 1)"

fun py_round1 :: "cell \<Rightarrow> cell" where
  "py_round1 (Fin a) = Fin (of_int (round_half_even (a * 10)) / 10)"
| "py_round1 x = x"

definition safe_sample_rate :: "series \<Rightarrow> cell" where
  "safe_sample_rate df =
     (let avg_dt = series_mean (col_dt df)
      in if notna avg_dt \<and> c_gt avg_dt 0 then py_round1 (c_div (Fin 1) avg_dt) else NaN)"

text \<open>
  The input of \<open>analyze\<close> is the table read from the file, one pair
  \<open>(t, distance)\<close> per row. Lines 93 and 94: the column \<open>dt\<close> is computed on
  the whole table, then the rows with \<open>dt > 1e-4\<close> are kept and renumbered.
\<close>

type_synonym row = "cell \<times> cell \<times> cell"

definition row_t :: "row \<Rightarrow> cell" where "row_t r = fst r"
definition row_distance :: "row \<Rightarrow> cell" where "row_distance r = fst (snd r)"
definition row_dt :: "row \<Rightarrow> cell" where "row_dt r = snd (snd r)"

definition compute_dt :: "(cell \<times> cell) list \<Rightarrow> row list" where
  "compute_dt rows = map2 (\<lambda>(t, d) dt. (t, d, dt)) rows (diff (map fst rows))"

definition time_delta :: "(cell \<times> cell) list \<Rightarrow> row list" where
  "time_delta rows = filter (\<lambda>r. c_gt (row_dt r) (1 / 10000)) (compute_dt rows)"

text \<open>Lines 96 to 103: the raw and the filtered derivatives.\<close>

definition derive :: "(cell \<times> cell) list \<Rightarrow> int \<Rightarrow> error + series" where
  "derive rows window =
     (let df = time_delta rows;
          ts = map row_t df; ds = map row_distance df; dts = map row_dt df;
          v = div_col (diff ds) dts;
          a = div_col (diff v) dts
      in case moving_average ds window of
           Inl e \<Rightarrow> Inl e
         | Inr df_f \<Rightarrow>
             (let vf = div_col (diff df_f) dts;
                  af = div_col (diff vf) dts
              in Inr \<lparr>col_t = ts, distance = ds, col_dt = dts,
                      velocity_raw = v, acceleration_raw = a,
                      distance_f = df_f, velocity_f = vf, acceleration_f = af\<rparr>))"

text \<open>Line 106: every infinite cell of the table, in whichever column, becomes NaN.\<close>

definition replace_cell :: "cell \<Rightarrow> cell" where
  "replace_cell x = (if x = PInf \<or> x = NInf then NaN else x)"

definition replace_inf :: "series \<Rightarrow> series" where
  "replace_inf df =
     \<lparr>col_t = map replace_cell (col_t df),
      distance = map replace_cell (distance df),
      col_dt = map replace_cell (col_dt df),
      velocity_raw = map replace_cell (velocity_raw df),
      acceleration_raw = map replace_cell (acceleration_raw df),
      distance_f = map replace_cell (distance_f df),
      velocity_f = map replace_cell (velocity_f df),
      acceleration_f = map replace_cell (acceleration_f df)\<rparr>"

text \<open>
  \<open>analyze\<close> returns the table it writes to the processed file; reading the
  file, plotting and printing are outside the model.
\<close>

definition analyze :: "(cell \<times> cell) list \<Rightarrow> int \<Rightarrow> error + series" where
  "analyze rows window =
     (case derive rows window of
        Inl e \<Rightarrow> Inl e
      | Inr df \<Rightarrow> Inr (replace_inf df))"

section \<open>distance\_log.py\<close>

text \<open>Line 104 of \<open>process_and_plot\<close>: a trailing full window, back-filled.\<close>

definition x_filtered :: "cell list \<Rightarrow> int \<Rightarrow> error + cell list" where
  "x_filtered x_raw window =
     (case rolling_mean x_raw window False None of
        Inl e \<Rightarrow> Inl e
      | Inr m \<Rightarrow> Inr (bfill m))"


section \<open>Notions used by the properties\<close>

text \<open>A cell is finite when it holds a number: neither an infinity nor NaN.\<close>

fun isfinite :: "cell \<Rightarrow> bool" where
  "isfinite (Fin a) = True"
| "isfinite _ = False"

text \<open>
  The labels of the input rows that line 94 keeps, before they are renumbered:
  row \<open>j\<close> is kept when its timestamp exceeds that of input row \<open>j - 1\<close> by
  more than \<open>1e-4\<close>. Row 0 has no predecessor and is never kept.
\<close>

definition retained :: "(cell \<times> cell) list \<Rightarrow> nat list" where
  "retained rows =
     filter (\<lambda>j. c_gt (c_sub (fst (rows ! j)) (fst (rows ! (j - 1)))) (1 / 10000))
       [1..<length rows]"



section \<open>Facts about overflow\<close>

text \<open>
  Code equation for evaluation: a result below \<open>2^64\<close> in magnitude is far
  from the bound.
\<close>

lemma overflow_code [code]:
  "overflow r =
     (if \<bar>r\<bar> < 2 ^ 64 then Fin r
      else if overflow_threshold \<le> r then PInf
      else if r \<le> - overflow_threshold then NInf
      else Fin r)"
proof -
  have "(2::real) ^ 64 < overflow_threshold"
    by (simp add: overflow_threshold_def)
  then show ?thesis
    by (auto simp: overflow_def)
qed

text \<open>The bound, written out.\<close>

lemma overflow_threshold_numeral:
  "overflow_threshold =
     179769313486231580793728971405303415079934132710037826936173778980444968292764750946649017977587207096330286416692887910946555547851940402630657488671505820681908902000708383676273854845817711531764475730270069855571366959622842914819860834936475292719074168444365510704342711559699508093042880177904174497792"
  by (simp add: overflow_threshold_def)

lemma overflow_threshold_large: "10000 < overflow_threshold"
  by (simp add: overflow_threshold_def)

lemma overflow_in_range:
  "- overflow_threshold < r \<Longrightarrow> r < overflow_threshold \<Longrightarrow> overflow r = Fin r"
  by (simp add: overflow_def)

lemma overflow_above: "overflow_threshold \<le> r \<Longrightarrow> overflow r = PInf"
  by (simp add: overflow_def)

section \<open>Basic facts about the column operations\<close>

lemma length_diff [simp]: "length (diff xs) = length xs"
  by (cases xs) simp_all

lemma nth_diff:
  "i < length xs \<Longrightarrow> diff xs ! i = (if i = 0 then NaN else c_sub (xs ! i) (xs ! (i - 1)))"
  by (cases xs; cases i) simp_all

lemma length_div_col [simp]: "length (div_col xs ys) = min (length xs) (length ys)"
  by (simp add: div_col_def)

lemma nth_div_col:
  "i < length xs \<Longrightarrow> i < length ys \<Longrightarrow> div_col xs ys ! i = c_div (xs ! i) (ys ! i)"
  by (simp add: div_col_def)

lemma replace_cell_simps [simp]:
  "replace_cell (Fin a) = Fin a" "replace_cell PInf = NaN"
  "replace_cell NInf = NaN" "replace_cell NaN = NaN"
  by (simp_all add: replace_cell_def)

lemma replace_cell_isinf: "replace_cell x = (if isinf x then NaN else x)"
  by (cases x) simp_all

lemma replace_cell_finite_or_missing: "isfinite (replace_cell x) \<or> replace_cell x = NaN"
  by (cases x) simp_all

lemma analyze_Inr:
  "analyze rows window = Inr s \<longleftrightarrow> (\<exists>df. derive rows window = Inr df \<and> s = replace_inf df)"
  by (auto simp: analyze_def split: sum.splits)

section \<open>Facts about the time-delta step\<close>

lemma c_le_not_gt: "c_le x r \<Longrightarrow> \<not> c_gt x r"
  by (cases x) simp_all

lemma length_compute_dt [simp]: "length (compute_dt rows) = length rows"
  by (simp add: compute_dt_def)

lemma nth_compute_dt:
  "j < length rows \<Longrightarrow>
     compute_dt rows ! j =
       (fst (rows ! j), snd (rows ! j),
        if j = 0 then NaN else c_sub (fst (rows ! j)) (fst (rows ! (j - 1))))"
  by (simp add: compute_dt_def nth_diff case_prod_unfold)

lemma compute_dt_map:
  "compute_dt rows =
     map (\<lambda>j. (fst (rows ! j), snd (rows ! j),
               if j = 0 then NaN else c_sub (fst (rows ! j)) (fst (rows ! (j - 1)))))
       [0..<length rows]"
  by (rule nth_equalityI) (simp_all add: nth_compute_dt)

lemma time_delta_retained:
  "time_delta rows =
     map (\<lambda>j. (fst (rows ! j), snd (rows ! j), c_sub (fst (rows ! j)) (fst (rows ! (j - 1)))))
       (retained rows)"
proof (cases "length rows")
  case 0
  then show ?thesis
    by (simp add: time_delta_def retained_def compute_dt_def)
next
  case (Suc n)
  have upt: "[0..<length rows] = 0 # [1..<length rows]"
    using Suc by (simp add: upt_conv_Cons)
  let ?f = "\<lambda>j. (fst (rows ! j), snd (rows ! j),
               if j = 0 then NaN else c_sub (fst (rows ! j)) (fst (rows ! (j - 1))))"
  let ?g = "\<lambda>j. (fst (rows ! j), snd (rows ! j), c_sub (fst (rows ! j)) (fst (rows ! (j - 1))))"
  let ?P = "\<lambda>r. c_gt (row_dt r) (1 / 10000)"
  have "time_delta rows = filter ?P (map ?f [0..<length rows])"
    unfolding time_delta_def by (subst compute_dt_map) (rule refl)
  also have "\<dots> = filter ?P (map ?f [1..<length rows])"
    by (subst upt) (simp add: row_dt_def)
  also have "map ?f [1..<length rows] = map ?g [1..<length rows]"
    by (rule map_cong) simp_all
  also have "filter ?P (map ?g [1..<length rows]) = map ?g (retained rows)"
    by (simp add: filter_map retained_def comp_def row_dt_def)
  finally show ?thesis .
qed

lemma retained_step:
  "c_gt (c_sub b a) e \<Longrightarrow> c_gt (c_sub a z) e \<Longrightarrow>
     replace_cell (c_sub b a) = replace_cell (c_sub (replace_cell b) (replace_cell a))"
  by (cases a; cases b; cases z) simp_all

lemma replace_cell_present: "replace_cell x \<noteq> NaN \<Longrightarrow> replace_cell x = x"
  by (cases x) simp_all

lemma retained_mem:
  "j \<in> set (retained rows) \<longleftrightarrow>
     1 \<le> j \<and> j < length rows \<and> c_gt (c_sub (fst (rows ! j)) (fst (rows ! (j - 1)))) (1 / 10000)"
  by (auto simp: retained_def)

lemma analyze_time_delta_columns:
  assumes "analyze rows window = Inr s"
  shows "col_t s = map (replace_cell \<circ> row_t) (time_delta rows)"
    and "distance s = map (replace_cell \<circ> row_distance) (time_delta rows)"
    and "col_dt s = map (replace_cell \<circ> row_dt) (time_delta rows)"
proof -
  from assms obtain df where d: "derive rows window = Inr df" and s: "s = replace_inf df"
    by (auto simp: analyze_Inr)
  from d have "col_t df = map row_t (time_delta rows) \<and> distance df = map row_distance (time_delta rows)
      \<and> col_dt df = map row_dt (time_delta rows)"
    by (auto simp: derive_def Let_def split: sum.splits)
  then show "col_t s = map (replace_cell \<circ> row_t) (time_delta rows)"
    "distance s = map (replace_cell \<circ> row_distance) (time_delta rows)"
    "col_dt s = map (replace_cell \<circ> row_dt) (time_delta rows)"
    by (simp_all add: s replace_inf_def)
qed

section \<open>Facts about the derivatives\<close>

lemma derive_columns:
  assumes "derive rows window = Inr df"
  shows "col_t df = map row_t (time_delta rows)"
    and "distance df = map row_distance (time_delta rows)"
    and "col_dt df = map row_dt (time_delta rows)"
    and "velocity_raw df = div_col (diff (distance df)) (col_dt df)"
    and "acceleration_raw df = div_col (diff (velocity_raw df)) (col_dt df)"
    and "moving_average (distance df) window = Inr (distance_f df)"
    and "velocity_f df = div_col (diff (distance_f df)) (col_dt df)"
    and "acceleration_f df = div_col (diff (velocity_f df)) (col_dt df)"
  using assms by (auto simp: derive_def Let_def split: sum.splits)

lemma derive_dt_gt:
  assumes "derive rows window = Inr df" and "i < length (col_dt df)"
  shows "c_gt (col_dt df ! i) (1 / 10000)"
proof -
  have "\<forall>r \<in> set (time_delta rows). c_gt (row_dt r) (1 / 10000)"
    by (simp add: time_delta_def)
  then show ?thesis
    using assms by (simp add: derive_columns(3))
qed

lemma sanitized_quotient:
  assumes "c_gt d e" and "0 \<le> e" and "replace_cell d \<noteq> NaN"
  shows "replace_cell (c_div (c_sub x y) d) =
           replace_cell (c_div (c_sub (replace_cell x) (replace_cell y)) (replace_cell d))"
  using assms by (cases d; cases x; cases y) simp_all

lemma c_sub_NaN [simp]: "c_sub x NaN = NaN" "c_sub NaN x = NaN"
  by (cases x; simp)+

lemma c_div_NaN [simp]: "c_div NaN x = NaN"
  by simp

section \<open>Facts about the rolling mean\<close>

lemma moving_average_eq:
  "moving_average signal window =
     (if window < 1 then Inl ValueError else Inr (roll_mean (prep_values signal) window True 1))"
  by (simp add: moving_average_def rolling_mean_def)

lemma length_roll_mean [simp]: "length (roll_mean values window center minp) = length values"
  by (simp add: roll_mean_def)

lemma window_bounds_one:
  "i < n \<Longrightarrow> window_bounds n 1 center i = (i, Suc i)"
  by (auto simp: window_bounds_def clip_def Let_def)

lemma take_one_drop: "i < length xs \<Longrightarrow> take (Suc 0) (drop i xs) = [xs ! i]"
  by (simp add: Cons_nth_drop_Suc [symmetric])

lemma calc_mean_single: "calc_mean (Suc 0) [x] = (if isfinite x then x else NaN)"
  by (cases x) (simp_all add: calc_mean_def)

lemma roll_mean_one:
  "roll_mean values 1 center (Suc 0) = map (\<lambda>x. if isfinite x then x else NaN) values"
  by (rule nth_equalityI)
    (simp_all add: roll_mean_def window_bounds_one take_one_drop calc_mean_single)

lemma prep_then_finite: "(\<lambda>x. if isfinite x then x else NaN) (if isinf x then NaN else x) = replace_cell x"
  by (cases x) simp_all

lemma moving_average_one: "moving_average signal 1 = Inr (map replace_cell signal)"
  by (simp add: moving_average_eq roll_mean_one prep_values_def comp_def prep_then_finite)

lemma replace_cell_idem [simp]: "replace_cell (replace_cell x) = replace_cell x"
  by (cases x) simp_all

lemma bfill_finite: "bfill (map Fin xs) = map Fin xs"
  by (induction xs) (simp_all add: Let_def)

lemma x_filtered_one_finite: "x_filtered (map Fin xs) 1 = Inr (map Fin xs)"
proof -
  have "prep_values (map Fin xs) = map Fin xs"
    by (simp add: prep_values_def)
  moreover have "roll_mean (map Fin xs) 1 False (Suc 0) = map Fin xs"
    by (simp add: roll_mean_one comp_def)
  ultimately show ?thesis
    by (simp add: x_filtered_def rolling_mean_def bfill_finite)
qed



lemma fin_vals_finite [simp]: "fin_vals (map Fin ws) = ws"
  by (induction ws) simp_all




section \<open>Facts about the mean of a column\<close>

lemma series_sum_finite:
  "\<forall>x \<in> set vals. isfinite x \<Longrightarrow> series_sum vals = Fin (sum_list (fin_vals vals))"
  by (auto simp: series_sum_def)

lemma filter_notna_no_inf:
  "\<forall>x \<in> set xs. \<not> isinf x \<Longrightarrow>
     (\<forall>x \<in> set (filter notna xs). isfinite x) \<and> fin_vals (filter notna xs) = fin_vals xs
     \<and> length (filter notna xs) = length (fin_vals xs)"
proof (induction xs)
  case Nil
  then show ?case by simp
next
  case (Cons x xs)
  then show ?case by (cases x) simp_all
qed

lemma series_mean_no_inf:
  assumes "\<forall>x \<in> set xs. \<not> isinf x"
  shows "series_mean xs =
     (if fin_vals xs = [] then NaN
      else overflow (sum_list (fin_vals xs) / real (length (fin_vals xs))))"
proof -
  note f = filter_notna_no_inf [OF assms]
  have e: "filter notna xs = [] \<longleftrightarrow> fin_vals xs = []"
    using f by (metis length_0_conv)
  have "series_sum (filter notna xs) = Fin (sum_list (fin_vals xs))"
    using series_sum_finite [of "filter notna xs"] f by simp
  then show ?thesis
    using f e by (simp add: series_mean_def Let_def)
qed

lemma sum_list_above:
  "xs \<noteq> [] \<Longrightarrow> \<forall>x \<in> set xs. (c::real) < x \<Longrightarrow> c * real (length xs) < sum_list xs"
proof (induction xs rule: list_nonempty_induct)
  case (single x)
  then show ?case by simp
next
  case (cons x xs)
  then have "c * real (length xs) < sum_list xs" "c < x" by simp_all
  then show ?case by (simp add: algebra_simps)
qed

lemma round_half_even_small: "0 \<le> x \<Longrightarrow> x < 1 / 2 \<Longrightarrow> round_half_even x = 0"
proof -
  assume x: "0 \<le> x" "x < 1 / 2"
  then have "\<lfloor>x\<rfloor> = 0" by (simp add: floor_eq_iff)
  with x show ?thesis by (simp add: round_half_even_def)
qed

lemma fin_vals_mem: "a \<in> set (fin_vals xs) \<longleftrightarrow> Fin a \<in> set xs"
  by (induction xs rule: fin_vals.induct) auto

lemma processed_dt:
  assumes "analyze rows window = Inr s"
  shows "\<forall>x \<in> set (col_dt s). \<not> isinf x" and "\<forall>a \<in> set (fin_vals (col_dt s)). 1 / 10000 < a"
proof -
  have c: "col_dt s = map (replace_cell \<circ> row_dt) (time_delta rows)"
    using assms by (rule analyze_time_delta_columns)
  show "\<forall>x \<in> set (col_dt s). \<not> isinf x"
    unfolding c by (auto simp: replace_cell_isinf)
  show "\<forall>a \<in> set (fin_vals (col_dt s)). 1 / 10000 < a"
  proof
    fix a assume "a \<in> set (fin_vals (col_dt s))"
    then obtain r where r: "r \<in> set (time_delta rows)" "replace_cell (row_dt r) = Fin a"
      unfolding c fin_vals_mem by auto
    then have "c_gt (row_dt r) (1 / 10000)" by (simp add: time_delta_def)
    with r(2) show "1 / 10000 < a" by (cases "row_dt r") simp_all
  qed
qed

lemma time_delta_short: "length rows < 2 \<Longrightarrow> time_delta rows = []"
  by (simp add: time_delta_retained retained_def)

section \<open>Two inputs that overflow\<close>

lemmas eval_defs =
  analyze_def derive_def time_delta_def compute_dt_def row_t_def row_distance_def row_dt_def
  div_col_def moving_average_def rolling_mean_def roll_mean_def window_bounds_def clip_def
  prep_values_def calc_mean_def replace_inf_def replace_cell_def overflow_def
  overflow_threshold_numeral Let_def

text \<open>
  Finite distances whose difference overflows: the raw velocity of the second
  retained row is infinite before the sanitizer and missing after it.
\<close>

lemma analyze_distance_overflow:
  "analyze [(Fin 0, Fin 0), (Fin 1, Fin (10 ^ 308)), (Fin 2, Fin (- (10 ^ 308)))] 1 =
     Inr \<lparr>col_t = [Fin 1, Fin 2], distance = [Fin (10 ^ 308), Fin (- (10 ^ 308))],
          col_dt = [Fin 1, Fin 1], velocity_raw = [NaN, NaN], acceleration_raw = [NaN, NaN],
          distance_f = [Fin (10 ^ 308), Fin (- (10 ^ 308))],
          velocity_f = [NaN, NaN], acceleration_f = [NaN, NaN]\<rparr>"
  by (simp add: eval_defs)

text \<open>
  Finite timestamps whose difference overflows: the \<open>dt\<close> of the second
  retained row is infinite before the sanitizer and missing after it.
\<close>

lemma analyze_time_overflow:
  "analyze [(Fin (- (17 * 10 ^ 307)), Fin 5), (Fin (- (10 ^ 308)), Fin 5), (Fin (10 ^ 308), Fin 5)] 1 =
     Inr \<lparr>col_t = [Fin (- (10 ^ 308)), Fin (10 ^ 308)], distance = [Fin 5, Fin 5],
          col_dt = [Fin (7 * 10 ^ 307), NaN], velocity_raw = [NaN, Fin 0],
          acceleration_raw = [NaN, NaN], distance_f = [Fin 5, Fin 5],
          velocity_f = [NaN, Fin 0], acceleration_f = [NaN, NaN]\<rparr>"
  by (simp add: eval_defs)

lemma sub_overflows:
  "c_sub (Fin (10 ^ 308)) (Fin (- (10 ^ 308))) = PInf"
  "c_sub (Fin (- (10 ^ 308))) (Fin (10 ^ 308)) = NInf"
  by (simp_all add: overflow_def overflow_threshold_numeral)

section \<open>The end-to-end example of a static object\<close>

text \<open>
  C4, as stated: on the input \<open>t = [0, 0.05, 0.10, 0.15]\<close>,
  \<open>distance = [10, 10, 10, 10]\<close> with window 3 the processed table has four
  rows, with \<open>dt = [missing, 0.05, 0.05, 0.05]\<close>,
  \<open>velocity_raw = [missing, 0, 0, 0]\<close>,
  \<open>acceleration_raw = [missing, missing, 0, 0]\<close> and
  \<open>distance_f = [10, 10, 10, 10]\<close>. The table computed by \<open>analyze\<close> has
  none of these four columns: the first input row has a missing \<open>dt\<close>, the
  comparison \<open>dt > 1e-4\<close> is false for it, and the row is dropped.
\<close>

theorem analyze_static_example_four_rows_counterexample:
  "map_sum id col_dt
     (analyze [(Fin 0, Fin 10), (Fin 0.05, Fin 10), (Fin 0.10, Fin 10), (Fin 0.15, Fin 10)] 3)
     \<noteq> Inr [NaN, Fin 0.05, Fin 0.05, Fin 0.05]
   \<and> map_sum id velocity_raw
     (analyze [(Fin 0, Fin 10), (Fin 0.05, Fin 10), (Fin 0.10, Fin 10), (Fin 0.15, Fin 10)] 3)
     \<noteq> Inr [NaN, Fin 0, Fin 0, Fin 0]
   \<and> map_sum id acceleration_raw
     (analyze [(Fin 0, Fin 10), (Fin 0.05, Fin 10), (Fin 0.10, Fin 10), (Fin 0.15, Fin 10)] 3)
     \<noteq> Inr [NaN, NaN, Fin 0, Fin 0]
   \<and> map_sum id distance_f
     (analyze [(Fin 0, Fin 10), (Fin 0.05, Fin 10), (Fin 0.10, Fin 10), (Fin 0.15, Fin 10)] 3)
     \<noteq> Inr [Fin 10, Fin 10, Fin 10, Fin 10]"
  by code_simp

text \<open>
  C4, amended: on that input with window 3 the processed table has the three
  rows of \<open>t = [0.05, 0.10, 0.15]\<close>, with \<open>dt = [0.05, 0.05, 0.05]\<close>,
  \<open>velocity_raw = [missing, 0, 0]\<close>, \<open>acceleration_raw = [missing, missing, 0]\<close>,
  \<open>distance_f = [10, 10, 10]\<close>, \<open>velocity_f = [missing, 0, 0]\<close> and
  \<open>acceleration_f = [missing, missing, 0]\<close>: every derivative is 0 from its
  first defined index on.
\<close>

theorem analyze_static_example:
  "analyze [(Fin 0, Fin 10), (Fin 0.05, Fin 10), (Fin 0.10, Fin 10), (Fin 0.15, Fin 10)] 3 =
     Inr \<lparr>col_t = [Fin 0.05, Fin 0.10, Fin 0.15],
          distance = [Fin 10, Fin 10, Fin 10],
          col_dt = [Fin 0.05, Fin 0.05, Fin 0.05],
          velocity_raw = [NaN, Fin 0, Fin 0],
          acceleration_raw = [NaN, NaN, Fin 0],
          distance_f = [Fin 10, Fin 10, Fin 10],
          velocity_f = [NaN, Fin 0, Fin 0],
          acceleration_f = [NaN, NaN, Fin 0]\<rparr>"
  by code_simp


section \<open>The sanitizer\<close>

text \<open>
  C8: after the sanitizer step of \<open>analyze\<close>, every cell of every derived
  column (\<open>dt\<close>, \<open>velocity_raw\<close>, \<open>acceleration_raw\<close>, \<open>distance_f\<close>,
  \<open>velocity_f\<close>, \<open>acceleration_f\<close>) is finite or missing, for every input.
\<close>

theorem sanitizer_leaves_no_infinity:
  assumes "analyze rows window = Inr s"
  shows "\<forall>x \<in> set (col_dt s) \<union> set (velocity_raw s) \<union> set (acceleration_raw s)
              \<union> set (distance_f s) \<union> set (velocity_f s) \<union> set (acceleration_f s).
           isfinite x \<or> x = NaN"
proof -
  from assms obtain df where s: "s = replace_inf df"
    by (auto simp: analyze_Inr)
  show ?thesis
    unfolding s replace_inf_def using replace_cell_finite_or_missing by auto
qed

text \<open>
  An input whose raw velocity is infinite before the sanitizer runs (the
  second distance is infinite).
\<close>

theorem sanitizer_leaves_no_infinity_witness:
  "analyze [(Fin 0, Fin 1), (Fin 1, PInf), (Fin 2, Fin 3)] 1 =
     Inr \<lparr>col_t = [Fin 1, Fin 2], distance = [NaN, Fin 3], col_dt = [Fin 1, Fin 1],
          velocity_raw = [NaN, NaN], acceleration_raw = [NaN, NaN],
          distance_f = [NaN, Fin 3], velocity_f = [NaN, NaN], acceleration_f = [NaN, NaN]\<rparr>
   \<and> list_all (\<lambda>x. isfinite x \<or> x = NaN)
        ([Fin 1, Fin 1] @ [NaN, NaN] @ [NaN, NaN] @ [NaN, Fin 3] @ [NaN, NaN] @ [NaN, NaN])"
proof -
  have h: "analyze [(Fin 0, Fin 1), (Fin 1, PInf), (Fin 2, Fin 3)] 1 =
     Inr \<lparr>col_t = [Fin 1, Fin 2], distance = [NaN, Fin 3], col_dt = [Fin 1, Fin 1],
          velocity_raw = [NaN, NaN], acceleration_raw = [NaN, NaN],
          distance_f = [NaN, Fin 3], velocity_f = [NaN, NaN], acceleration_f = [NaN, NaN]\<rparr>"
    by code_simp
  from sanitizer_leaves_no_infinity [OF h] h show ?thesis by simp
qed

text \<open>
  C9, as stated: the sanitizer leaves the columns \<open>t\<close> and \<open>distance\<close> as they
  were. It does not: the replacement of line 106 runs over the whole table.
  With an infinite distance in the second row, and with an infinite timestamp
  in the third, the column after the sanitizer differs from the column
  before it.
\<close>

theorem sanitizer_rewrites_t_and_distance_counterexample:
  "map_sum id distance (analyze [(Fin 0, Fin 1), (Fin 1, PInf), (Fin 2, Fin 3)] 1)
     \<noteq> map_sum id distance (derive [(Fin 0, Fin 1), (Fin 1, PInf), (Fin 2, Fin 3)] 1)
   \<and> map_sum id col_t (analyze [(Fin 0, Fin 1), (Fin 1, Fin 7), (PInf, Fin 3)] 1)
     \<noteq> map_sum id col_t (derive [(Fin 0, Fin 1), (Fin 1, Fin 7), (PInf, Fin 3)] 1)"
  by code_simp

text \<open>
  C9, amended: the sanitizer rewrites every column, \<open>t\<close> and \<open>distance\<close>
  included. It keeps the number and the order of the rows; in \<open>t\<close> and in
  \<open>distance\<close> an infinite cell becomes the missing marker and every other
  cell is unchanged.
\<close>

theorem sanitizer_frame:
  assumes "derive rows window = Inr df"
  shows "analyze rows window = Inr (replace_inf df)
       \<and> length (col_t (replace_inf df)) = length (col_t df)
       \<and> length (distance (replace_inf df)) = length (distance df)
       \<and> (\<forall>i < length (col_t df).
            col_t (replace_inf df) ! i = (if isinf (col_t df ! i) then NaN else col_t df ! i))
       \<and> (\<forall>i < length (distance df).
            distance (replace_inf df) ! i = (if isinf (distance df ! i) then NaN else distance df ! i))"
  using assms by (simp add: analyze_def replace_inf_def replace_cell_isinf)

theorem sanitizer_frame_witness:
  "derive [(Fin 0, Fin 1), (Fin 1, PInf), (Fin 2, Fin 3)] 1 =
     Inr \<lparr>col_t = [Fin 1, Fin 2], distance = [PInf, Fin 3], col_dt = [Fin 1, Fin 1],
          velocity_raw = [NaN, NInf], acceleration_raw = [NaN, NaN],
          distance_f = [NaN, Fin 3], velocity_f = [NaN, NaN], acceleration_f = [NaN, NaN]\<rparr>
   \<and> map_sum id col_t (analyze [(Fin 0, Fin 1), (Fin 1, PInf), (Fin 2, Fin 3)] 1)
       = Inr [Fin 1, Fin 2]
   \<and> map_sum id distance (analyze [(Fin 0, Fin 1), (Fin 1, PInf), (Fin 2, Fin 3)] 1)
       = Inr [NaN, Fin 3]"
proof -
  have h: "derive [(Fin 0, Fin 1), (Fin 1, PInf), (Fin 2, Fin 3)] 1 =
     Inr \<lparr>col_t = [Fin 1, Fin 2], distance = [PInf, Fin 3], col_dt = [Fin 1, Fin 1],
          velocity_raw = [NaN, NInf], acceleration_raw = [NaN, NaN],
          distance_f = [NaN, Fin 3], velocity_f = [NaN, NaN], acceleration_f = [NaN, NaN]\<rparr>"
    by code_simp
  from sanitizer_frame [OF h] h show ?thesis
    by (simp add: replace_inf_def)
qed


section \<open>The time-delta step\<close>

text \<open>
  C2: after the time-delta step every retained row has \<open>dt > 1e-4\<close>, and no
  input row with \<open>dt \<le> 1e-4\<close> is among the retained rows, for every input
  table; the rows of the processed table are the retained rows, sanitized.
\<close>

theorem time_delta_keeps_dt_above_eps:
  "(\<forall>r \<in> set (time_delta rows). c_gt (row_dt r) (1 / 10000))
   \<and> (\<forall>r \<in> set (compute_dt rows). c_le (row_dt r) (1 / 10000) \<longrightarrow> r \<notin> set (time_delta rows))
   \<and> (\<forall>s. analyze rows window = Inr s \<longrightarrow>
          col_t s = map (replace_cell \<circ> row_t) (time_delta rows)
        \<and> distance s = map (replace_cell \<circ> row_distance) (time_delta rows)
        \<and> col_dt s = map (replace_cell \<circ> row_dt) (time_delta rows))"
proof (intro conjI allI impI ballI)
  fix r assume "r \<in> set (time_delta rows)"
  then show "c_gt (row_dt r) (1 / 10000)" by (simp add: time_delta_def)
next
  fix r assume "r \<in> set (compute_dt rows)" and "c_le (row_dt r) (1 / 10000)"
  then show "r \<notin> set (time_delta rows)"
    by (simp add: time_delta_def c_le_not_gt)
next
  fix s assume a: "analyze rows window = Inr s"
  then show "col_t s = map (replace_cell \<circ> row_t) (time_delta rows)"
    "distance s = map (replace_cell \<circ> row_distance) (time_delta rows)"
    "col_dt s = map (replace_cell \<circ> row_dt) (time_delta rows)"
    by (rule analyze_time_delta_columns)+
qed

text \<open>An input with a repeated timestamp: its third row has \<open>dt = 0\<close>.\<close>

theorem time_delta_keeps_dt_above_eps_witness:
  "time_delta [(Fin 0, Fin 1), (Fin 1, Fin 2), (Fin 1, Fin 3), (Fin 2, Fin 4)]
     = [(Fin 1, Fin 2, Fin 1), (Fin 2, Fin 4, Fin 1)]
   \<and> c_gt (row_dt (Fin 1, Fin 2, Fin 1)) (1 / 10000)
   \<and> (Fin 1, Fin 3, Fin 0) \<in> set (compute_dt [(Fin 0, Fin 1), (Fin 1, Fin 2), (Fin 1, Fin 3), (Fin 2, Fin 4)])
   \<and> c_le (row_dt (Fin 1, Fin 3, Fin 0)) (1 / 10000)
   \<and> (Fin 1, Fin 3, Fin 0) \<notin> set (time_delta [(Fin 0, Fin 1), (Fin 1, Fin 2), (Fin 1, Fin 3), (Fin 2, Fin 4)])
   \<and> map_sum id col_dt (analyze [(Fin 0, Fin 1), (Fin 1, Fin 2), (Fin 1, Fin 3), (Fin 2, Fin 4)] 1)
       = Inr [Fin 1, Fin 1]"
proof -
  have a: "time_delta [(Fin 0, Fin 1), (Fin 1, Fin 2), (Fin 1, Fin 3), (Fin 2, Fin 4)]
     = [(Fin 1, Fin 2, Fin 1), (Fin 2, Fin 4, Fin 1)]"
    by code_simp
  have b: "(Fin 1, Fin 3, Fin 0) \<in> set (compute_dt [(Fin 0, Fin 1), (Fin 1, Fin 2), (Fin 1, Fin 3), (Fin 2, Fin 4)])"
    by code_simp
  have c: "c_le (row_dt (Fin 1, Fin 3, Fin 0)) (1 / 10000)"
    by (simp add: row_dt_def)
  have d: "map_sum id col_dt (analyze [(Fin 0, Fin 1), (Fin 1, Fin 2), (Fin 1, Fin 3), (Fin 2, Fin 4)] 1)
       = Inr [Fin 1, Fin 1]"
    by code_simp
  from time_delta_keeps_dt_above_eps
         [of "[(Fin 0, Fin 1), (Fin 1, Fin 2), (Fin 1, Fin 3), (Fin 2, Fin 4)]" 1] a b c d
  show ?thesis by (simp add: row_dt_def)
qed


text \<open>
  C3, as stated: in the processed table \<open>dt[i] = t[i] - t[i-1]\<close> for every
  \<open>i > 0\<close>. The column \<open>dt\<close> is computed before the rows are dropped and
  is not computed again. With the timestamps \<open>0, 1, 1.00005, 2\<close> the third
  row is dropped; the retained rows have \<open>t = [1, 2]\<close> and \<open>dt = [1, 0.99995]\<close>,
  so \<open>dt[1]\<close> is not \<open>t[1] - t[0] = 1\<close>. With the timestamps
  \<open>-1.7e308, -1e308, 1e308\<close> no row but the first is dropped, the second
  difference overflows, and the sanitizer leaves \<open>dt[1]\<close> missing while
  \<open>t[1] - t[0]\<close> is infinite.
\<close>

theorem dt_spans_dropped_rows_counterexample:
  "(map_sum id (\<lambda>s. (col_dt s ! 1, c_sub (col_t s ! 1) (col_t s ! 0)))
     (analyze [(Fin 0, Fin 5), (Fin 1, Fin 5), (Fin 1.00005, Fin 5), (Fin 2, Fin 5)] 1)
     = Inr (Fin 0.99995, Fin 1)
   \<and> map_sum id (\<lambda>s. col_dt s ! 1)
       (analyze [(Fin 0, Fin 5), (Fin 1, Fin 5), (Fin 1.00005, Fin 5), (Fin 2, Fin 5)] 1)
     \<noteq> map_sum id (\<lambda>s. c_sub (col_t s ! 1) (col_t s ! 0))
       (analyze [(Fin 0, Fin 5), (Fin 1, Fin 5), (Fin 1.00005, Fin 5), (Fin 2, Fin 5)] 1))
   \<and> map_sum id (\<lambda>s. (col_t s, col_dt s ! 1, c_sub (col_t s ! 1) (col_t s ! 0)))
       (analyze [(Fin (- (17 * 10 ^ 307)), Fin 5), (Fin (- (10 ^ 308)), Fin 5),
                 (Fin (10 ^ 308), Fin 5)] 1)
     = Inr ([Fin (- (10 ^ 308)), Fin (10 ^ 308)], NaN, PInf)"
proof
  show "map_sum id (\<lambda>s. (col_dt s ! 1, c_sub (col_t s ! 1) (col_t s ! 0)))
     (analyze [(Fin 0, Fin 5), (Fin 1, Fin 5), (Fin 1.00005, Fin 5), (Fin 2, Fin 5)] 1)
     = Inr (Fin 0.99995, Fin 1)
   \<and> map_sum id (\<lambda>s. col_dt s ! 1)
       (analyze [(Fin 0, Fin 5), (Fin 1, Fin 5), (Fin 1.00005, Fin 5), (Fin 2, Fin 5)] 1)
     \<noteq> map_sum id (\<lambda>s. c_sub (col_t s ! 1) (col_t s ! 0))
       (analyze [(Fin 0, Fin 5), (Fin 1, Fin 5), (Fin 1.00005, Fin 5), (Fin 2, Fin 5)] 1)"
    by code_simp
  show "map_sum id (\<lambda>s. (col_t s, col_dt s ! 1, c_sub (col_t s ! 1) (col_t s ! 0)))
       (analyze [(Fin (- (17 * 10 ^ 307)), Fin 5), (Fin (- (10 ^ 308)), Fin 5),
                 (Fin (10 ^ 308), Fin 5)] 1)
     = Inr ([Fin (- (10 ^ 308)), Fin (10 ^ 308)], NaN, PInf)"
    unfolding analyze_time_overflow
    by (simp add: overflow_def overflow_threshold_numeral)
qed

text \<open>
  C3, amended: in the processed table the \<open>dt\<close> of a row is its timestamp
  minus the timestamp of the row before it in the input table, an infinite
  difference replaced by the missing marker. For an index \<open>i > 0\<close> whose input
  predecessor was itself retained (no row was dropped between the two),
  \<open>dt[i]\<close> is \<open>t[i] - t[i-1]\<close> with an infinite difference replaced by the
  missing marker; so \<open>dt[i] = t[i] - t[i-1]\<close> wherever \<open>dt[i]\<close> is not
  missing.
\<close>

theorem dt_of_retained_rows:
  assumes "analyze rows window = Inr s"
  shows "col_t s = map (\<lambda>j. replace_cell (fst (rows ! j))) (retained rows)
       \<and> col_dt s =
           map (\<lambda>j. replace_cell (c_sub (fst (rows ! j)) (fst (rows ! (j - 1))))) (retained rows)
       \<and> (\<forall>i. 0 < i \<and> i < length (retained rows)
                \<and> retained rows ! (i - 1) = retained rows ! i - 1 \<longrightarrow>
              col_dt s ! i = replace_cell (c_sub (col_t s ! i) (col_t s ! (i - 1)))
            \<and> (col_dt s ! i \<noteq> NaN \<longrightarrow>
                 col_dt s ! i = c_sub (col_t s ! i) (col_t s ! (i - 1))))"
proof -
  have cols: "col_t s = map (replace_cell \<circ> row_t) (time_delta rows)"
    "col_dt s = map (replace_cell \<circ> row_dt) (time_delta rows)"
    using assms by (rule analyze_time_delta_columns)+
  have t: "col_t s = map (\<lambda>j. replace_cell (fst (rows ! j))) (retained rows)"
    by (simp add: cols time_delta_retained row_t_def comp_def)
  have dt: "col_dt s =
      map (\<lambda>j. replace_cell (c_sub (fst (rows ! j)) (fst (rows ! (j - 1))))) (retained rows)"
    by (simp add: cols time_delta_retained row_dt_def comp_def)
  have san: "col_dt s ! i = replace_cell (c_sub (col_t s ! i) (col_t s ! (i - 1)))"
    if i: "0 < i" "i < length (retained rows)"
      and adj: "retained rows ! (i - 1) = retained rows ! i - 1" for i
  proof -
    let ?j = "retained rows ! i"
    have "?j \<in> set (retained rows)" "?j - 1 \<in> set (retained rows)"
      using i adj nth_mem [of i "retained rows"] nth_mem [of "i - 1" "retained rows"]
      by auto
    then have gt: "c_gt (c_sub (fst (rows ! ?j)) (fst (rows ! (?j - 1)))) (1 / 10000)"
      "c_gt (c_sub (fst (rows ! (?j - 1))) (fst (rows ! (?j - 1 - 1)))) (1 / 10000)"
      by (simp_all add: retained_mem)
    have e: "retained rows ! i - 1 = retained rows ! (i - 1)"
      using adj by simp
    have "replace_cell (c_sub (fst (rows ! ?j)) (fst (rows ! (retained rows ! (i - 1))))) =
        replace_cell (c_sub (replace_cell (fst (rows ! ?j)))
          (replace_cell (fst (rows ! (retained rows ! (i - 1))))))"
      using retained_step [OF gt] unfolding e .
    moreover have "col_dt s ! i =
        replace_cell (c_sub (fst (rows ! ?j)) (fst (rows ! (retained rows ! (i - 1)))))"
      using i e by (simp add: dt)
    moreover have "col_t s ! i = replace_cell (fst (rows ! ?j))"
      "col_t s ! (i - 1) = replace_cell (fst (rows ! (retained rows ! (i - 1))))"
      using i by (simp_all add: t)
    ultimately show ?thesis by simp
  qed
  have plain: "col_dt s ! i = c_sub (col_t s ! i) (col_t s ! (i - 1))"
    if "0 < i" "i < length (retained rows)"
      and "retained rows ! (i - 1) = retained rows ! i - 1" and "col_dt s ! i \<noteq> NaN" for i
    using san [OF that(1-3)] that(4) replace_cell_present by metis
  from t dt san plain show ?thesis by blast
qed

text \<open>An input with a dropped row; the last two rows are adjacent.\<close>

theorem dt_of_retained_rows_witness:
  "retained [(Fin 0, Fin 5), (Fin 1, Fin 5), (Fin 1.00005, Fin 5), (Fin 2, Fin 5), (Fin 3, Fin 5)]
     = [1, 3, 4]
   \<and> analyze [(Fin 0, Fin 5), (Fin 1, Fin 5), (Fin 1.00005, Fin 5), (Fin 2, Fin 5), (Fin 3, Fin 5)] 1 =
      Inr \<lparr>col_t = [Fin 1, Fin 2, Fin 3], distance = [Fin 5, Fin 5, Fin 5],
           col_dt = [Fin 1, Fin 0.99995, Fin 1],
           velocity_raw = [NaN, Fin 0, Fin 0], acceleration_raw = [NaN, NaN, Fin 0],
           distance_f = [Fin 5, Fin 5, Fin 5],
           velocity_f = [NaN, Fin 0, Fin 0], acceleration_f = [NaN, NaN, Fin 0]\<rparr>
   \<and> col_dt \<lparr>col_t = [Fin 1, Fin 2, Fin 3], distance = [Fin 5, Fin 5, Fin 5],
           col_dt = [Fin 1, Fin 0.99995, Fin 1],
           velocity_raw = [NaN, Fin 0, Fin 0], acceleration_raw = [NaN, NaN, Fin 0],
           distance_f = [Fin 5, Fin 5, Fin 5],
           velocity_f = [NaN, Fin 0, Fin 0], acceleration_f = [NaN, NaN, Fin 0]\<rparr> ! 2
     = c_sub (col_t \<lparr>col_t = [Fin 1, Fin 2, Fin 3], distance = [Fin 5, Fin 5, Fin 5],
           col_dt = [Fin 1, Fin 0.99995, Fin 1],
           velocity_raw = [NaN, Fin 0, Fin 0], acceleration_raw = [NaN, NaN, Fin 0],
           distance_f = [Fin 5, Fin 5, Fin 5],
           velocity_f = [NaN, Fin 0, Fin 0], acceleration_f = [NaN, NaN, Fin 0]\<rparr> ! 2)
         (col_t \<lparr>col_t = [Fin 1, Fin 2, Fin 3], distance = [Fin 5, Fin 5, Fin 5],
           col_dt = [Fin 1, Fin 0.99995, Fin 1],
           velocity_raw = [NaN, Fin 0, Fin 0], acceleration_raw = [NaN, NaN, Fin 0],
           distance_f = [Fin 5, Fin 5, Fin 5],
           velocity_f = [NaN, Fin 0, Fin 0], acceleration_f = [NaN, NaN, Fin 0]\<rparr> ! (2 - 1))"
proof -
  let ?R = "[(Fin 0, Fin 5), (Fin 1, Fin 5), (Fin 1.00005, Fin 5), (Fin 2, Fin 5), (Fin 3, Fin 5)]"
  let ?S = "\<lparr>col_t = [Fin 1, Fin 2, Fin 3], distance = [Fin 5, Fin 5, Fin 5],
           col_dt = [Fin 1, Fin 0.99995, Fin 1],
           velocity_raw = [NaN, Fin 0, Fin 0], acceleration_raw = [NaN, NaN, Fin 0],
           distance_f = [Fin 5, Fin 5, Fin 5],
           velocity_f = [NaN, Fin 0, Fin 0], acceleration_f = [NaN, NaN, Fin 0]\<rparr>"
  have h: "analyze ?R 1 = Inr ?S"
    by code_simp
  have r: "retained ?R = [1, 3, 4]"
    by code_simp
  have idx: "0 < (2::nat) \<and> 2 < length (retained ?R)
      \<and> retained ?R ! (2 - 1) = retained ?R ! 2 - 1"
    unfolding r by simp
  have ne: "col_dt ?S ! 2 \<noteq> NaN"
    by simp
  from dt_of_retained_rows [OF h]
  have "\<forall>i. 0 < i \<and> i < length (retained ?R) \<and> retained ?R ! (i - 1) = retained ?R ! i - 1 \<longrightarrow>
          col_dt ?S ! i = replace_cell (c_sub (col_t ?S ! i) (col_t ?S ! (i - 1)))
        \<and> (col_dt ?S ! i \<noteq> NaN \<longrightarrow> col_dt ?S ! i = c_sub (col_t ?S ! i) (col_t ?S ! (i - 1)))"
    by blast
  from this [rule_format, OF idx] ne
  have "col_dt ?S ! 2 = c_sub (col_t ?S ! 2) (col_t ?S ! (2 - 1))"
    by blast
  with h r show ?thesis by blast
qed

section \<open>The raw derivatives\<close>

text \<open>
  C1, as stated: in the processed table \<open>velocity_raw[i]\<close> is
  \<open>(distance[i] - distance[i-1]) / dt[i]\<close> for every \<open>i > 0\<close>. With an
  infinite timestamp in the last input row that row is kept with an infinite
  \<open>dt\<close>; its raw velocity is \<open>0 / inf = 0\<close>, and the sanitizer then turns
  the \<open>dt\<close> of the row into the missing marker. In the processed table
  \<open>velocity_raw[1]\<close> is 0, while the quotient taken on the columns of that
  table is missing. With the finite distances \<open>0, 1e308, -1e308\<close> at the
  times \<open>0, 1, 2\<close> the difference of the last two overflows: \<open>dt[1]\<close> is 1,
  \<open>velocity_raw[1]\<close> is missing after the sanitizer, and the quotient taken
  on the columns of the processed table is infinite.
\<close>

theorem velocity_with_infinite_dt_counterexample:
  "(map_sum id (\<lambda>s. velocity_raw s ! 1) (analyze [(Fin 0, Fin 5), (Fin 1, Fin 5), (PInf, Fin 5)] 1)
     = Inr (Fin 0)
   \<and> map_sum id (\<lambda>s. c_div (c_sub (distance s ! 1) (distance s ! 0)) (col_dt s ! 1))
       (analyze [(Fin 0, Fin 5), (Fin 1, Fin 5), (PInf, Fin 5)] 1)
     = Inr NaN)
   \<and> map_sum id (\<lambda>s. (col_dt s ! 1, velocity_raw s ! 1,
                      c_div (c_sub (distance s ! 1) (distance s ! 0)) (col_dt s ! 1)))
       (analyze [(Fin 0, Fin 0), (Fin 1, Fin (10 ^ 308)), (Fin 2, Fin (- (10 ^ 308)))] 1)
     = Inr (Fin 1, NaN, NInf)"
proof
  show "map_sum id (\<lambda>s. velocity_raw s ! 1) (analyze [(Fin 0, Fin 5), (Fin 1, Fin 5), (PInf, Fin 5)] 1)
     = Inr (Fin 0)
   \<and> map_sum id (\<lambda>s. c_div (c_sub (distance s ! 1) (distance s ! 0)) (col_dt s ! 1))
       (analyze [(Fin 0, Fin 5), (Fin 1, Fin 5), (PInf, Fin 5)] 1)
     = Inr NaN"
    by code_simp
  show "map_sum id (\<lambda>s. (col_dt s ! 1, velocity_raw s ! 1,
                      c_div (c_sub (distance s ! 1) (distance s ! 0)) (col_dt s ! 1)))
       (analyze [(Fin 0, Fin 0), (Fin 1, Fin (10 ^ 308)), (Fin 2, Fin (- (10 ^ 308)))] 1)
     = Inr (Fin 1, NaN, NInf)"
    unfolding analyze_distance_overflow
    by (simp add: overflow_def overflow_threshold_numeral)
qed

text \<open>
  C1, amended: in the processed table, for every index \<open>i > 0\<close> whose \<open>dt[i]\<close>
  is not missing, \<open>velocity_raw[i]\<close> is the quotient
  \<open>(distance[i] - distance[i-1]) / dt[i]\<close> with an infinite quotient replaced
  by the missing marker (so it is that quotient unless the quotient is
  infinite), and \<open>velocity_raw[0]\<close> is missing; for every index \<open>i > 1\<close>
  whose \<open>dt[i]\<close> is not missing, \<open>acceleration_raw[i]\<close> is the quotient
  \<open>(velocity_raw[i] - velocity_raw[i-1]) / dt[i]\<close> with an infinite quotient
  replaced by the missing marker, and \<open>acceleration_raw\<close> is missing at the
  indices 0 and 1.
\<close>

theorem raw_derivatives_where_dt_defined:
  assumes "analyze rows window = Inr s"
  shows "length (distance s) = length (col_t s) \<and> length (col_dt s) = length (col_t s)
       \<and> length (velocity_raw s) = length (col_t s)
       \<and> length (acceleration_raw s) = length (col_t s)
       \<and> (\<forall>i. 0 < i \<and> i < length (col_t s) \<and> col_dt s ! i \<noteq> NaN \<longrightarrow>
            velocity_raw s ! i =
              replace_cell (c_div (c_sub (distance s ! i) (distance s ! (i - 1))) (col_dt s ! i))
          \<and> (\<not> isinf (c_div (c_sub (distance s ! i) (distance s ! (i - 1))) (col_dt s ! i)) \<longrightarrow>
               velocity_raw s ! i =
                 c_div (c_sub (distance s ! i) (distance s ! (i - 1))) (col_dt s ! i)))
       \<and> (0 < length (col_t s) \<longrightarrow> velocity_raw s ! 0 = NaN)
       \<and> (\<forall>i. 1 < i \<and> i < length (col_t s) \<and> col_dt s ! i \<noteq> NaN \<longrightarrow>
            acceleration_raw s ! i =
              replace_cell
                (c_div (c_sub (velocity_raw s ! i) (velocity_raw s ! (i - 1))) (col_dt s ! i))
          \<and> (\<not> isinf (c_div (c_sub (velocity_raw s ! i) (velocity_raw s ! (i - 1))) (col_dt s ! i)) \<longrightarrow>
               acceleration_raw s ! i =
                 c_div (c_sub (velocity_raw s ! i) (velocity_raw s ! (i - 1))) (col_dt s ! i)))
       \<and> (\<forall>i. i < 2 \<and> i < length (col_t s) \<longrightarrow> acceleration_raw s ! i = NaN)"
proof -
  from assms obtain df where d: "derive rows window = Inr df" and s: "s = replace_inf df"
    by (auto simp: analyze_Inr)
  note c = derive_columns [OF d]
  let ?n = "length (time_delta rows)"
  have len: "length (col_t df) = ?n" "length (distance df) = ?n" "length (col_dt df) = ?n"
    "length (velocity_raw df) = ?n" "length (acceleration_raw df) = ?n"
    by (simp_all add: c(1-3) c(4) c(5))
  have sel: "col_t s = map replace_cell (col_t df)" "distance s = map replace_cell (distance df)"
    "col_dt s = map replace_cell (col_dt df)"
    "velocity_raw s = map replace_cell (velocity_raw df)"
    "acceleration_raw s = map replace_cell (acceleration_raw df)"
    by (simp_all add: s replace_inf_def)
  have v: "velocity_raw df ! i =
      c_div (if i = 0 then NaN else c_sub (distance df ! i) (distance df ! (i - 1))) (col_dt df ! i)"
    if "i < ?n" for i
    using that len by (subst c(4)) (simp add: nth_div_col nth_diff)
  have a: "acceleration_raw df ! i =
      c_div (if i = 0 then NaN else c_sub (velocity_raw df ! i) (velocity_raw df ! (i - 1)))
        (col_dt df ! i)"
    if "i < ?n" for i
    using that len by (subst c(5)) (simp add: nth_div_col nth_diff)
  have gt: "c_gt (col_dt df ! i) (1 / 10000)" if "i < ?n" for i
    using that len derive_dt_gt [OF d] by simp
  have vel: "velocity_raw s ! i =
      replace_cell (c_div (c_sub (distance s ! i) (distance s ! (i - 1))) (col_dt s ! i))"
    if "0 < i" "i < length (col_t s)" "col_dt s ! i \<noteq> NaN" for i
  proof -
    have i: "i < ?n" "i - 1 < ?n" using that by (simp_all add: sel len)
    have "replace_cell (col_dt df ! i) \<noteq> NaN"
      using that i by (simp add: sel len)
    from sanitized_quotient [OF gt [OF i(1)] _ this]
    show ?thesis using that i by (simp add: sel len v del: c_sub.simps c_div.simps)
  qed
  have vel0: "velocity_raw s ! 0 = NaN" if "0 < length (col_t s)"
    using that by (simp add: sel len v)
  have acc: "acceleration_raw s ! i =
      replace_cell (c_div (c_sub (velocity_raw s ! i) (velocity_raw s ! (i - 1))) (col_dt s ! i))"
    if "1 < i" "i < length (col_t s)" "col_dt s ! i \<noteq> NaN" for i
  proof -
    have i: "i < ?n" "i - 1 < ?n" using that by (simp_all add: sel len)
    have "replace_cell (col_dt df ! i) \<noteq> NaN"
      using that i by (simp add: sel len)
    from sanitized_quotient [OF gt [OF i(1)] _ this]
    show ?thesis using that i by (simp add: sel len a del: c_sub.simps c_div.simps)
  qed
  have acc01: "acceleration_raw s ! i = NaN" if "i < 2" "i < length (col_t s)" for i
  proof -
    have i: "i < ?n" using that by (simp add: sel len)
    have "i = 0 \<or> i = 1" using that by linarith
    then show ?thesis
    proof
      assume "i = 0"
      then show ?thesis using i by (simp add: sel len a)
    next
      assume i1: "i = 1"
      then have "0 < ?n" using i by (cases "time_delta rows") simp_all
      then have "velocity_raw df ! 0 = NaN" by (simp add: v)
      then show ?thesis using i i1 by (simp add: sel len a)
    qed
  qed
  have "length (distance s) = length (col_t s)" "length (col_dt s) = length (col_t s)"
    "length (velocity_raw s) = length (col_t s)" "length (acceleration_raw s) = length (col_t s)"
    by (simp_all add: sel len)
  with vel vel0 acc acc01 show ?thesis
    by (simp add: replace_cell_isinf del: c_sub.simps c_div.simps)
qed

text \<open>An input moving with growing speed: every quotient is finite.\<close>

theorem raw_derivatives_where_dt_defined_witness:
  "analyze [(Fin 0, Fin 0), (Fin 1, Fin 1), (Fin 2, Fin 4), (Fin 3, Fin 9)] 1 =
      Inr \<lparr>col_t = [Fin 1, Fin 2, Fin 3], distance = [Fin 1, Fin 4, Fin 9],
           col_dt = [Fin 1, Fin 1, Fin 1], velocity_raw = [NaN, Fin 3, Fin 5],
           acceleration_raw = [NaN, NaN, Fin 2], distance_f = [Fin 1, Fin 4, Fin 9],
           velocity_f = [NaN, Fin 3, Fin 5], acceleration_f = [NaN, NaN, Fin 2]\<rparr>
   \<and> velocity_raw \<lparr>col_t = [Fin 1, Fin 2, Fin 3], distance = [Fin 1, Fin 4, Fin 9],
           col_dt = [Fin 1, Fin 1, Fin 1], velocity_raw = [NaN, Fin 3, Fin 5],
           acceleration_raw = [NaN, NaN, Fin 2], distance_f = [Fin 1, Fin 4, Fin 9],
           velocity_f = [NaN, Fin 3, Fin 5], acceleration_f = [NaN, NaN, Fin 2]\<rparr> ! 2
     = c_div (c_sub (distance \<lparr>col_t = [Fin 1, Fin 2, Fin 3], distance = [Fin 1, Fin 4, Fin 9],
           col_dt = [Fin 1, Fin 1, Fin 1], velocity_raw = [NaN, Fin 3, Fin 5],
           acceleration_raw = [NaN, NaN, Fin 2], distance_f = [Fin 1, Fin 4, Fin 9],
           velocity_f = [NaN, Fin 3, Fin 5], acceleration_f = [NaN, NaN, Fin 2]\<rparr> ! 2)
         (distance \<lparr>col_t = [Fin 1, Fin 2, Fin 3], distance = [Fin 1, Fin 4, Fin 9],
           col_dt = [Fin 1, Fin 1, Fin 1], velocity_raw = [NaN, Fin 3, Fin 5],
           acceleration_raw = [NaN, NaN, Fin 2], distance_f = [Fin 1, Fin 4, Fin 9],
           velocity_f = [NaN, Fin 3, Fin 5], acceleration_f = [NaN, NaN, Fin 2]\<rparr> ! (2 - 1)))
         (col_dt \<lparr>col_t = [Fin 1, Fin 2, Fin 3], distance = [Fin 1, Fin 4, Fin 9],
           col_dt = [Fin 1, Fin 1, Fin 1], velocity_raw = [NaN, Fin 3, Fin 5],
           acceleration_raw = [NaN, NaN, Fin 2], distance_f = [Fin 1, Fin 4, Fin 9],
           velocity_f = [NaN, Fin 3, Fin 5], acceleration_f = [NaN, NaN, Fin 2]\<rparr> ! 2)
   \<and> acceleration_raw \<lparr>col_t = [Fin 1, Fin 2, Fin 3], distance = [Fin 1, Fin 4, Fin 9],
           col_dt = [Fin 1, Fin 1, Fin 1], velocity_raw = [NaN, Fin 3, Fin 5],
           acceleration_raw = [NaN, NaN, Fin 2], distance_f = [Fin 1, Fin 4, Fin 9],
           velocity_f = [NaN, Fin 3, Fin 5], acceleration_f = [NaN, NaN, Fin 2]\<rparr> ! 2
     = c_div (c_sub (velocity_raw \<lparr>col_t = [Fin 1, Fin 2, Fin 3], distance = [Fin 1, Fin 4, Fin 9],
           col_dt = [Fin 1, Fin 1, Fin 1], velocity_raw = [NaN, Fin 3, Fin 5],
           acceleration_raw = [NaN, NaN, Fin 2], distance_f = [Fin 1, Fin 4, Fin 9],
           velocity_f = [NaN, Fin 3, Fin 5], acceleration_f = [NaN, NaN, Fin 2]\<rparr> ! 2)
         (velocity_raw \<lparr>col_t = [Fin 1, Fin 2, Fin 3], distance = [Fin 1, Fin 4, Fin 9],
           col_dt = [Fin 1, Fin 1, Fin 1], velocity_raw = [NaN, Fin 3, Fin 5],
           acceleration_raw = [NaN, NaN, Fin 2], distance_f = [Fin 1, Fin 4, Fin 9],
           velocity_f = [NaN, Fin 3, Fin 5], acceleration_f = [NaN, NaN, Fin 2]\<rparr> ! (2 - 1)))
         (col_dt \<lparr>col_t = [Fin 1, Fin 2, Fin 3], distance = [Fin 1, Fin 4, Fin 9],
           col_dt = [Fin 1, Fin 1, Fin 1], velocity_raw = [NaN, Fin 3, Fin 5],
           acceleration_raw = [NaN, NaN, Fin 2], distance_f = [Fin 1, Fin 4, Fin 9],
           velocity_f = [NaN, Fin 3, Fin 5], acceleration_f = [NaN, NaN, Fin 2]\<rparr> ! 2)"
proof -
  let ?R = "[(Fin 0, Fin 0), (Fin 1, Fin 1), (Fin 2, Fin 4), (Fin 3, Fin 9)]"
  let ?S = "\<lparr>col_t = [Fin 1, Fin 2, Fin 3], distance = [Fin 1, Fin 4, Fin 9],
           col_dt = [Fin 1, Fin 1, Fin 1], velocity_raw = [NaN, Fin 3, Fin 5],
           acceleration_raw = [NaN, NaN, Fin 2], distance_f = [Fin 1, Fin 4, Fin 9],
           velocity_f = [NaN, Fin 3, Fin 5], acceleration_f = [NaN, NaN, Fin 2]\<rparr>"
  have h: "analyze ?R 1 = Inr ?S"
    by code_simp
  have idx: "0 < (2::nat) \<and> 2 < length (col_t ?S) \<and> col_dt ?S ! 2 \<noteq> NaN"
    "1 < (2::nat) \<and> 2 < length (col_t ?S) \<and> col_dt ?S ! 2 \<noteq> NaN"
    by simp_all
  have fin: "\<not> isinf (c_div (c_sub (distance ?S ! 2) (distance ?S ! (2 - 1))) (col_dt ?S ! 2))"
    "\<not> isinf (c_div (c_sub (velocity_raw ?S ! 2) (velocity_raw ?S ! (2 - 1))) (col_dt ?S ! 2))"
    by (simp_all add: overflow_code)
  note th = raw_derivatives_where_dt_defined [OF h]
  from th have "\<forall>i. 0 < i \<and> i < length (col_t ?S) \<and> col_dt ?S ! i \<noteq> NaN \<longrightarrow>
            velocity_raw ?S ! i =
              replace_cell (c_div (c_sub (distance ?S ! i) (distance ?S ! (i - 1))) (col_dt ?S ! i))
          \<and> (\<not> isinf (c_div (c_sub (distance ?S ! i) (distance ?S ! (i - 1))) (col_dt ?S ! i)) \<longrightarrow>
               velocity_raw ?S ! i =
                 c_div (c_sub (distance ?S ! i) (distance ?S ! (i - 1))) (col_dt ?S ! i))"
    by blast
  from this [rule_format, OF idx(1)] fin(1)
  have v: "velocity_raw ?S ! 2
      = c_div (c_sub (distance ?S ! 2) (distance ?S ! (2 - 1))) (col_dt ?S ! 2)"
    by blast
  from th have "\<forall>i. 1 < i \<and> i < length (col_t ?S) \<and> col_dt ?S ! i \<noteq> NaN \<longrightarrow>
            acceleration_raw ?S ! i =
              replace_cell
                (c_div (c_sub (velocity_raw ?S ! i) (velocity_raw ?S ! (i - 1))) (col_dt ?S ! i))
          \<and> (\<not> isinf (c_div (c_sub (velocity_raw ?S ! i) (velocity_raw ?S ! (i - 1))) (col_dt ?S ! i)) \<longrightarrow>
               acceleration_raw ?S ! i =
                 c_div (c_sub (velocity_raw ?S ! i) (velocity_raw ?S ! (i - 1))) (col_dt ?S ! i))"
    by blast
  from this [rule_format, OF idx(2)] fin(2)
  have a: "acceleration_raw ?S ! 2
      = c_div (c_sub (velocity_raw ?S ! 2) (velocity_raw ?S ! (2 - 1))) (col_dt ?S ! 2)"
    by blast
  from h v a show ?thesis by blast
qed

section \<open>The smoothing filter\<close>




text \<open>
  C6, as stated: with window 1 \<open>moving_average\<close> is the identity on every
  input series. An infinite cell is not returned: the rolling aggregation of
  pandas takes it for a missing value.
\<close>

theorem moving_average_window_one_counterexample:
  "moving_average [Fin 10, PInf, Fin 12] 1 = Inr [Fin 10, NaN, Fin 12]
   \<and> moving_average [Fin 10, PInf, Fin 12] 1 \<noteq> Inr [Fin 10, PInf, Fin 12]"
  by code_simp

text \<open>
  C6, amended: with window 1 \<open>moving_average\<close> returns every finite and every
  missing cell as it is and turns an infinite cell into the missing marker;
  in the processed table of \<open>analyze\<close> with window 1 the column
  \<open>distance_f\<close> equals the column \<open>distance\<close> at every index.
\<close>

theorem moving_average_window_one:
  "moving_average signal 1 = Inr (map (\<lambda>x. if isinf x then NaN else x) signal)
   \<and> (\<forall>s. analyze rows 1 = Inr s \<longrightarrow> distance_f s = distance s)"
proof (intro conjI allI impI)
  show "moving_average signal 1 = Inr (map (\<lambda>x. if isinf x then NaN else x) signal)"
    by (simp add: moving_average_one replace_cell_isinf)
next
  fix s assume "analyze rows 1 = Inr s"
  then obtain df where d: "derive rows 1 = Inr df" and s: "s = replace_inf df"
    by (auto simp: analyze_Inr)
  from derive_columns(6) [OF d] have "distance_f df = map replace_cell (distance df)"
    by (simp add: moving_average_one)
  then show "distance_f s = distance s"
    by (simp add: s replace_inf_def)
qed

theorem moving_average_window_one_witness:
  "moving_average [Fin 10, PInf, NaN] 1 = Inr [Fin 10, NaN, NaN]
   \<and> map_sum id distance (analyze [(Fin 0, Fin 1), (Fin 1, PInf), (Fin 2, Fin 3)] 1)
       = Inr [NaN, Fin 3]
   \<and> map_sum id distance_f (analyze [(Fin 0, Fin 1), (Fin 1, PInf), (Fin 2, Fin 3)] 1)
       = Inr [NaN, Fin 3]"
proof -
  have h: "analyze [(Fin 0, Fin 1), (Fin 1, PInf), (Fin 2, Fin 3)] 1 =
     Inr \<lparr>col_t = [Fin 1, Fin 2], distance = [NaN, Fin 3], col_dt = [Fin 1, Fin 1],
          velocity_raw = [NaN, NaN], acceleration_raw = [NaN, NaN],
          distance_f = [NaN, Fin 3], velocity_f = [NaN, NaN], acceleration_f = [NaN, NaN]\<rparr>"
    by code_simp
  from moving_average_window_one [of "[Fin 10, PInf, NaN]" "[(Fin 0, Fin 1), (Fin 1, PInf), (Fin 2, Fin 3)]"] h
  show ?thesis by simp
qed

section \<open>The two smoothing paths\<close>

text \<open>
  C10: the centered, edge-shrinking moving average of \<open>analyzer.py\<close> and the
  trailing, back-filled rolling mean of \<open>distance_log.py\<close> are not equivalent:
  on the series \<open>0, 3, 6\<close> with window 3 they differ at the indices 0 and 2.
  On series of finite numbers they agree for window 1.
\<close>

theorem smoothing_paths_differ:
  "moving_average [Fin 0, Fin 3, Fin 6] 3 = Inr [Fin 1.5, Fin 3, Fin 4.5]
   \<and> x_filtered [Fin 0, Fin 3, Fin 6] 3 = Inr [Fin 3, Fin 3, Fin 3]
   \<and> moving_average [Fin 0, Fin 3, Fin 6] 3 \<noteq> x_filtered [Fin 0, Fin 3, Fin 6] 3
   \<and> (\<forall>xs. moving_average (map Fin xs) 1 = x_filtered (map Fin xs) 1)"
proof -
  have "moving_average [Fin 0, Fin 3, Fin 6] 3 = Inr [Fin 1.5, Fin 3, Fin 4.5]"
    by code_simp
  moreover have "x_filtered [Fin 0, Fin 3, Fin 6] 3 = Inr [Fin 3, Fin 3, Fin 3]"
    by code_simp
  moreover have "moving_average [Fin 0, Fin 3, Fin 6] 3 \<noteq> x_filtered [Fin 0, Fin 3, Fin 6] 3"
    by code_simp
  moreover have "moving_average (map Fin xs) 1 = x_filtered (map Fin xs) 1" for xs
    by (simp add: moving_average_one x_filtered_one_finite comp_def)
  ultimately show ?thesis by blast
qed


section \<open>The sample rate\<close>

text \<open>
  C7, as stated: \<open>safe_sample_rate\<close> returns the undefined marker whenever
  the processed table has fewer than two samples. A table of two input rows
  is processed into a table of one row, which carries a \<open>dt\<close>; its rate is
  \<open>round(1 / 0.05, 1) = 20\<close>, not the undefined marker.
\<close>

theorem sample_rate_single_row_counterexample:
  "map_sum id (\<lambda>s. (length (col_t s), col_dt s, safe_sample_rate s))
     (analyze [(Fin 0, Fin 10), (Fin 0.05, Fin 10)] 5) = Inr (1, [Fin 0.05], Fin 20)"
  by code_simp

text \<open>
  C7, amended: for every processed table, \<open>safe_sample_rate\<close> returns
  \<open>round(1 / mean(dt), 1)\<close>, the mean taken over the \<open>dt\<close> cells that are
  not missing, whenever there is such a cell (the mean is then positive), and
  the undefined marker otherwise, in particular for the table without rows
  that an input of fewer than two samples yields. On any table a mean that is
  non-positive or NaN gives the undefined marker, and no division by zero
  takes place.
\<close>

theorem safe_sample_rate_processed:
  assumes "analyze rows window = Inr s"
  shows "safe_sample_rate s =
           (if fin_vals (col_dt s) = [] then NaN
            else Fin (real_of_int (round_half_even
                   (1 / (sum_list (fin_vals (col_dt s)) / real (length (fin_vals (col_dt s)))) * 10))
                 / 10))
       \<and> (length rows < 2 \<longrightarrow> safe_sample_rate s = NaN)
       \<and> (\<forall>df. \<not> c_gt (series_mean (col_dt df)) 0 \<longrightarrow> safe_sample_rate df = NaN)"
proof (intro conjI allI impI)
  note p = processed_dt [OF assms]
  let ?vals = "fin_vals (col_dt s)"
  have m: "series_mean (col_dt s) =
      (if ?vals = [] then NaN else overflow (sum_list ?vals / real (length ?vals)))"
    using p(1) by (rule series_mean_no_inf)
  have above: "1 / 10000 < sum_list ?vals / real (length ?vals)" if "?vals \<noteq> []"
  proof -
    have "1 / 10000 * real (length ?vals) < sum_list ?vals"
      using that p(2) by (rule sum_list_above)
    moreover have "0 < real (length ?vals)" using that by simp
    ultimately show ?thesis by (simp add: pos_less_divide_eq)
  qed
  show r: "safe_sample_rate s =
           (if ?vals = [] then NaN
            else Fin (real_of_int (round_half_even (1 / (sum_list ?vals / real (length ?vals)) * 10))
                 / 10))"
  proof (cases "?vals = []")
    case True
    then show ?thesis by (simp add: safe_sample_rate_def m)
  next
    case False
    define avg where "avg = sum_list ?vals / real (length ?vals)"
    have avg: "1 / 10000 < avg"
      using above [OF False] by (simp add: avg_def)
    have mean: "series_mean (col_dt s) = overflow avg"
      using False by (simp add: m avg_def)
    have "safe_sample_rate s = Fin (real_of_int (round_half_even (1 / avg * 10)) / 10)"
    proof (cases "overflow_threshold \<le> avg")
      case True
      then have "series_mean (col_dt s) = PInf"
        by (simp add: mean overflow_above)
      then have "safe_sample_rate s = Fin (real_of_int (round_half_even 0) / 10)"
        by (simp add: safe_sample_rate_def Let_def)
      moreover have "round_half_even 0 = 0"
        by (rule round_half_even_small) simp_all
      moreover have "round_half_even (1 / avg * 10) = 0"
      proof (rule round_half_even_small)
        show "0 \<le> 1 / avg * 10" using avg by simp
        have "20 < avg" using True overflow_threshold_large by linarith
        then show "1 / avg * 10 < 1 / 2" by (simp add: field_simps)
      qed
      ultimately show ?thesis by simp
    next
      case False
      then have "series_mean (col_dt s) = Fin avg"
        using avg overflow_threshold_large by (simp add: mean overflow_in_range)
      moreover have "overflow (1 / avg) = Fin (1 / avg)"
      proof (rule overflow_in_range)
        have "0 < 1 / avg" using avg by simp
        then show "- overflow_threshold < 1 / avg"
          using overflow_threshold_large by linarith
        have "1 / avg < 10000" using avg by (simp add: field_simps)
        then show "1 / avg < overflow_threshold"
          using overflow_threshold_large by linarith
      qed
      ultimately show ?thesis
        using avg by (simp add: safe_sample_rate_def Let_def)
    qed
    with \<open>?vals \<noteq> []\<close> show ?thesis by (simp add: avg_def)
  qed
  show "safe_sample_rate s = NaN" if "length rows < 2"
  proof -
    have "col_dt s = []"
      using analyze_time_delta_columns(3) [OF assms] time_delta_short [OF that] by simp
    then show ?thesis by (simp add: r)
  qed
next
  fix df :: series assume "\<not> c_gt (series_mean (col_dt df)) 0"
  then show "safe_sample_rate df = NaN"
    by (simp add: safe_sample_rate_def Let_def)
qed

theorem safe_sample_rate_processed_witness:
  "map_sum id (\<lambda>s. (col_dt s, safe_sample_rate s))
     (analyze [(Fin 0, Fin 1), (Fin 0.05, Fin 1), (Fin 0.11, Fin 1), (PInf, Fin 2)] 3)
     = Inr ([Fin 0.05, Fin 0.06, NaN], Fin 18.2)
   \<and> Fin 18.2 = Fin (real_of_int (round_half_even (1 / ((0.05 + 0.06) / 2) * 10)) / 10)
   \<and> map_sum id safe_sample_rate (analyze [(Fin 0, Fin 1)] 3) = Inr NaN
   \<and> \<not> c_gt (series_mean [Fin 1, Fin (- 1)]) 0
   \<and> safe_sample_rate \<lparr>col_t = [], distance = [], col_dt = [Fin 1, Fin (- 1)],
        velocity_raw = [], acceleration_raw = [], distance_f = [], velocity_f = [],
        acceleration_f = []\<rparr> = NaN"
proof -
  have h: "analyze [(Fin 0, Fin 1), (Fin 0.05, Fin 1), (Fin 0.11, Fin 1), (PInf, Fin 2)] 3 =
      Inr \<lparr>col_t = [Fin 0.05, Fin 0.11, NaN], distance = [Fin 1, Fin 1, Fin 2],
           col_dt = [Fin 0.05, Fin 0.06, NaN], velocity_raw = [NaN, Fin 0, Fin 0],
           acceleration_raw = [NaN, NaN, Fin 0], distance_f = [Fin 1, Fin (4 / 3), Fin (3 / 2)],
           velocity_f = [NaN, Fin (50 / 9), Fin 0], acceleration_f = [NaN, NaN, Fin 0]\<rparr>"
    by code_simp
  have h1: "analyze [(Fin 0, Fin 1)] 3 =
      Inr \<lparr>col_t = [], distance = [], col_dt = [], velocity_raw = [], acceleration_raw = [],
           distance_f = [], velocity_f = [], acceleration_f = []\<rparr>"
    by code_simp
  have r: "Fin 18.2 = Fin (real_of_int (round_half_even (1 / ((0.05 + 0.06) / 2) * 10)) / 10)"
    by code_simp
  have n: "\<not> c_gt (series_mean [Fin 1, Fin (- 1)]) 0"
    by code_simp
  from safe_sample_rate_processed [OF h] safe_sample_rate_processed [OF h1] h h1 r n
  show ?thesis by simp
qed


end
